theory Spec2Isabelle
  imports Complex_Main
begin

section \<open>Errors and the result type\<close>

text \<open>
  Both modules let the exceptions of the libraries they call propagate. Each exception
  that can leave one of the modelled functions is a constructor of \<open>error\<close>, and a
  function that may raise returns \<open>error + 'a\<close> with \<open>Inl\<close> for the exception.
\<close>

datatype error =
    ValueError
  | KeyError string
  | TypeError
  | ParserError
  | InvalidIndexError
  | AttributeError

definition then_do :: "error + 'a \<Rightarrow> ('a \<Rightarrow> error + 'b) \<Rightarrow> error + 'b" where
  "then_do m f = (case m of Inl e \<Rightarrow> Inl e | Inr x \<Rightarrow> f x)"

section \<open>Tables (air.py)\<close>

subsection \<open>Data model\<close>

text \<open>
  A cell of a table is missing (\<open>NaN\<close>, which also stands for the missing time stamp),
  a number or a string. Numbers are reals: \<open>pm\<close> only compares them with the constants
  0 and 900, and comparison of finite floating-point numbers is exact.

  A table is stored by column, as the library stores it: the row labels (\<open>index\<close>) and
  an association list from column name to the cells of that column, in column order.
  In a well-formed table every column is as long as the index.
\<close>

datatype cell = NaN | Num real | Str string

record dataframe =
  index :: "cell list"
  columns :: "(string \<times> cell list) list"

definition nrows :: "dataframe \<Rightarrow> nat" where
  "nrows df = length (index df)"

definition column_names :: "dataframe \<Rightarrow> string list" where
  "column_names df = map fst (columns df)"

definition wf_frame :: "dataframe \<Rightarrow> bool" where
  "wf_frame df = list_all (\<lambda>(n, vs). length vs = nrows df) (columns df)"

subsection \<open>The table operations that pm calls\<close>

text \<open>
  \<open>pd.concat(df_list, ignore_index=True)\<close>: raises on an empty list; otherwise the
  result has the union of the column names in order of first appearance, the rows of the
  tables one after the other, a missing cell wherever a table lacks a column, and a fresh
  index \<open>0, 1, 2, ...\<close>.
\<close>

fun unique :: "'a list \<Rightarrow> 'a list" where
  "unique [] = []"
| "unique (x # xs) = x # filter (\<lambda>y. y \<noteq> x) (unique xs)"

definition column_or_missing :: "string \<Rightarrow> dataframe \<Rightarrow> cell list" where
  "column_or_missing n df =
     (case map_of (columns df) n of
        Some vs \<Rightarrow> vs
      | None \<Rightarrow> replicate (nrows df) NaN)"

definition range_index :: "nat \<Rightarrow> cell list" where
  "range_index n = map (\<lambda>i. Num (real i)) [0..<n]"

definition pd_concat :: "dataframe list \<Rightarrow> error + dataframe" where
  "pd_concat df_list =
     (if df_list = [] then Inl ValueError
      else Inr \<lparr> index = range_index (sum_list (map nrows df_list)),
                 columns = map (\<lambda>n. (n, concat (map (column_or_missing n) df_list)))
                               (unique (concat (map column_names df_list))) \<rparr>)"

text \<open>
  \<open>df.drop(columns=names)\<close>: raises \<open>KeyError\<close> when one of the names is not a column
  (the library's default is \<open>errors='raise'\<close>), otherwise removes the named columns.
\<close>

definition drop_columns :: "string list \<Rightarrow> dataframe \<Rightarrow> error + dataframe" where
  "drop_columns names df =
     (case filter (\<lambda>n. n \<notin> set (column_names df)) names of
        n # _ \<Rightarrow> Inl (KeyError n)
      | [] \<Rightarrow> Inr (df\<lparr>columns := filter (\<lambda>(n, vs). n \<notin> set names) (columns df)\<rparr>))"

text \<open>\<open>df[name]\<close>: the cells of the column, \<open>KeyError\<close> when there is no such column.\<close>

definition getitem :: "dataframe \<Rightarrow> string \<Rightarrow> error + cell list" where
  "getitem df n =
     (case map_of (columns df) n of
        None \<Rightarrow> Inl (KeyError n)
      | Some vs \<Rightarrow> Inr vs)"

text \<open>
  \<open>series > k\<close> and \<open>series < k\<close>: one truth value per cell. A missing cell compares
  false; comparing a string with a number raises \<open>TypeError\<close>.
\<close>

definition is_str :: "cell \<Rightarrow> bool" where
  "is_str c = (case c of Str s \<Rightarrow> True | _ \<Rightarrow> False)"

definition cell_gt :: "real \<Rightarrow> cell \<Rightarrow> bool" where
  "cell_gt k c = (case c of Num x \<Rightarrow> k < x | _ \<Rightarrow> False)"

definition cell_lt :: "real \<Rightarrow> cell \<Rightarrow> bool" where
  "cell_lt k c = (case c of Num x \<Rightarrow> x < k | _ \<Rightarrow> False)"

definition series_gt :: "cell list \<Rightarrow> real \<Rightarrow> error + bool list" where
  "series_gt vs k = (if list_ex is_str vs then Inl TypeError else Inr (map (cell_gt k) vs))"

definition series_lt :: "cell list \<Rightarrow> real \<Rightarrow> error + bool list" where
  "series_lt vs k = (if list_ex is_str vs then Inl TypeError else Inr (map (cell_lt k) vs))"

text \<open>
  \<open>df[mask]\<close> with a boolean mask: the rows whose mask entry is true, with their labels;
  the other rows are not part of the result.
\<close>

definition select :: "bool list \<Rightarrow> 'a list \<Rightarrow> 'a list" where
  "select msk xs = map fst (filter snd (zip xs msk))"

definition select_rows :: "bool list \<Rightarrow> dataframe \<Rightarrow> dataframe" where
  "select_rows msk df =
     \<lparr> index = select msk (index df),
       columns = map (\<lambda>(n, vs). (n, select msk vs)) (columns df) \<rparr>"

text \<open>
  \<open>df.ffill()\<close>: in every column, a missing cell takes the value of the nearest
  non-missing cell above it; missing cells above the first non-missing one stay missing.
\<close>

fun ffill_from :: "cell \<Rightarrow> cell list \<Rightarrow> cell list" where
  "ffill_from prev [] = []"
| "ffill_from prev (c # cs) =
     (if c = NaN then prev # ffill_from prev cs else c # ffill_from c cs)"

definition ffill_column :: "cell list \<Rightarrow> cell list" where
  "ffill_column cs = ffill_from NaN cs"

definition ffill :: "dataframe \<Rightarrow> dataframe" where
  "ffill df = df\<lparr>columns := map (\<lambda>(n, vs). (n, ffill_column vs)) (columns df)\<rparr>"

text \<open>\<open>df.rename(columns={old: new})\<close>: renames the column, keeps its place and cells.\<close>

definition rename_column :: "string \<Rightarrow> string \<Rightarrow> dataframe \<Rightarrow> dataframe" where
  "rename_column old new df =
     df\<lparr>columns := map (\<lambda>(n, vs). (if n = old then new else n, vs)) (columns df)\<rparr>"

text \<open>
  \<open>pd.to_datetime(series)\<close>: the parser of time stamps belongs to the library and is a
  parameter \<open>parse\<close> of the model; \<open>parse c = None\<close> means that the library rejects the
  cell, and then the whole conversion raises.
\<close>

definition to_datetime :: "(cell \<Rightarrow> cell option) \<Rightarrow> cell list \<Rightarrow> error + cell list" where
  "to_datetime parse vs =
     (case those (map parse vs) of
        None \<Rightarrow> Inl ParserError
      | Some ts \<Rightarrow> Inr ts)"

text \<open>\<open>df[name] = series\<close> for a column that exists: the cells are replaced in place.\<close>

definition setitem :: "string \<Rightarrow> cell list \<Rightarrow> dataframe \<Rightarrow> dataframe" where
  "setitem name ws df =
     df\<lparr>columns := map (\<lambda>(n, vs). (n, if n = name then ws else vs)) (columns df)\<rparr>"

text \<open>
  \<open>df.set_index(name)\<close>: the column becomes the index and leaves the columns;
  \<open>KeyError\<close> when there is no such column.
\<close>

definition set_index :: "string \<Rightarrow> dataframe \<Rightarrow> error + dataframe" where
  "set_index name df =
     then_do (getitem df name) (\<lambda>ts.
       Inr \<lparr> index = ts, columns = filter (\<lambda>(n, vs). n \<noteq> name) (columns df) \<rparr>)"

subsection \<open>pm\<close>

text \<open>
  The files found by the recursive search are an input of the model, in the order the
  search returns them: \<open>Some df\<close> is a file that \<open>pd.read_csv\<close> reads as the table
  \<open>df\<close>, \<open>None\<close> a file on which it raises. The loop reads every file before anything
  else happens, so the first unreadable file aborts the call.
\<close>

definition read_all :: "dataframe option list \<Rightarrow> error + dataframe list" where
  "read_all files =
     (case those files of
        None \<Rightarrow> Inl ParserError
      | Some df_list \<Rightarrow> Inr df_list)"

definition drop_cols :: "string list" where
  "drop_cols = [''location_id'', ''sensors_id'', ''lat'', ''lon'', ''parameter'', ''units'',
                ''location'']"

definition pm :: "(cell \<Rightarrow> cell option) \<Rightarrow> dataframe option list \<Rightarrow> bool \<Rightarrow> error + dataframe" where
  "pm parse files do_drop =
     then_do (read_all files) (\<lambda>df_list.
     then_do (pd_concat df_list) (\<lambda>df.
     then_do (if do_drop then drop_columns drop_cols df else Inr df) (\<lambda>df.
     then_do (getitem df ''value'') (\<lambda>v.
     then_do (series_gt v 0) (\<lambda>msk.
     let df = select_rows msk df in
     then_do (getitem df ''value'') (\<lambda>v.
     then_do (series_lt v 900) (\<lambda>msk.
     let df = select_rows msk df;
         df = ffill df;
         df = rename_column ''value'' ''pm2.5'' df in
     then_do (getitem df ''datetime'') (\<lambda>d.
     then_do (to_datetime parse d) (\<lambda>ts.
     let df = setitem ''datetime'' ts df in
     set_index ''datetime'' df)))))))))"

section \<open>Gridded data (merra.py)\<close>

subsection \<open>Data model\<close>

text \<open>
  A gridded dataset has named one-dimensional coordinate axes (\<open>lat\<close> and \<open>lon\<close> among
  them), a number of time steps, and named variables. A variable has the dimensions
  (time, lat, lon) and is a function from the three positions to its value; \<open>None\<close> is the
  missing value (NaN). Values are reals: the statements below compare the results of the
  same summations or say that a result is missing, which rounding does not affect.
\<close>

type_synonym variable = "nat \<Rightarrow> nat \<Rightarrow> nat \<Rightarrow> real option"

record dataset =
  coords :: "string \<rightharpoonup> real list"
  ntime :: nat
  data_vars :: "string \<rightharpoonup> variable"

definition get_coord :: "dataset \<Rightarrow> string \<Rightarrow> error + real list" where
  "get_coord ds n = (case coords ds n of None \<Rightarrow> Inl (KeyError n) | Some axis \<Rightarrow> Inr axis)"

definition get_var :: "dataset \<Rightarrow> string \<Rightarrow> error + variable" where
  "get_var ds n = (case data_vars ds n of None \<Rightarrow> Inl (KeyError n) | Some var \<Rightarrow> Inr var)"

text \<open>
  A geometry of the shape library is seen through its point locator: every point of the
  plane lies in the interior, on the boundary or in the exterior of the geometry.
  \<open>polygon.contains(Point(p))\<close> holds when \<open>p\<close> lies in the interior (the library defines
  \<open>contains\<close> by: no point of the other geometry in the exterior, and one of its interior
  points in the interior).
\<close>

datatype location = Interior | Boundary | Exterior

type_synonym point = "real \<times> real"
type_synonym geometry = "point \<Rightarrow> location"

definition empty_geometry :: geometry where
  "empty_geometry = (\<lambda>p. Exterior)"

definition contains :: "geometry \<Rightarrow> point \<Rightarrow> bool" where
  "contains g p = (g p = Interior)"

text \<open>
  The shape collection is a geo data frame. It either has an active geometry column, a list
  whose entries may be missing (\<open>None\<close>), or it has none, as a frame built without any
  geometry has; then \<open>shapefile.geometry\<close> raises \<open>AttributeError\<close>.
\<close>

type_synonym geodataframe = "geometry option list option"

definition get_geometry :: "geodataframe \<Rightarrow> error + geometry option list" where
  "get_geometry shapefile =
     (case shapefile of
        None \<Rightarrow> Inl AttributeError
      | Some geoms \<Rightarrow> Inr geoms)"

text \<open>
  \<open>union_all()\<close> on the geometry column: missing entries are skipped, and the union of no
  geometry is the empty geometry collection; the call does not raise. The union of one or
  more geometries is computed by the geometry engine, which is a parameter \<open>unary_union\<close>
  of the model.
\<close>

definition union_all :: "(geometry list \<Rightarrow> geometry) \<Rightarrow> geometry option list \<Rightarrow> geometry" where
  "union_all unary_union gs =
     (case List.map_filter id gs of
        [] \<Rightarrow> empty_geometry
      | g # rest \<Rightarrow> unary_union (g # rest))"

subsection \<open>mean_polygon\<close>

text \<open>
  \<open>np.meshgrid(lon, lat)\<close>, \<open>ravel\<close> and \<open>column_stack\<close> list the points
  \<open>(lon, lat)\<close> row by row, one row per latitude; the containment test runs over that list
  and \<open>reshape\<close> reads the flat result back as a lat by lon grid.
\<close>

definition meshgrid_points :: "real list \<Rightarrow> real list \<Rightarrow> point list" where
  "meshgrid_points lon lat = concat (map (\<lambda>la. map (\<lambda>lo. (lo, la)) lon) lat)"

definition reshape :: "'a list \<Rightarrow> nat \<Rightarrow> nat \<Rightarrow> nat \<Rightarrow> 'a" where
  "reshape flat ncols i j = flat ! (i * ncols + j)"

definition polygon_mask :: "geometry \<Rightarrow> real list \<Rightarrow> real list \<Rightarrow> nat \<Rightarrow> nat \<Rightarrow> bool" where
  "polygon_mask polygon lon lat =
     (let points = meshgrid_points lon lat;
          msk = map (contains polygon) points
      in reshape msk (length lon))"

text \<open>
  \<open>var.where(mask)\<close> keeps the cells whose mask entry is true and makes the others missing,
  at every time step. \<open>mean(dim=['lat', 'lon'])\<close> averages, for each time step, the cells
  that are not missing; when none is left the mean of that time step is missing.
\<close>

definition where_mask :: "variable \<Rightarrow> (nat \<Rightarrow> nat \<Rightarrow> bool) \<Rightarrow> variable" where
  "where_mask var msk = (\<lambda>t i j. if msk i j then var t i j else None)"

definition nanmean :: "real option list \<Rightarrow> real option" where
  "nanmean xs =
     (let ys = List.map_filter id xs
      in if ys = [] then None else Some (sum_list ys / real (length ys)))"

definition mean_lat_lon :: "nat \<Rightarrow> nat \<Rightarrow> nat \<Rightarrow> variable \<Rightarrow> real option list" where
  "mean_lat_lon nt nlat nlon var =
     map (\<lambda>t. nanmean (concat (map (\<lambda>i. map (\<lambda>j. var t i j) [0..<nlon]) [0..<nlat]))) [0..<nt]"

definition mean_polygon ::
  "(geometry list \<Rightarrow> geometry) \<Rightarrow> dataset \<Rightarrow> string \<Rightarrow> geodataframe
     \<Rightarrow> error + real option list" where
  "mean_polygon unary_union ds variable shapefile =
     then_do (get_geometry shapefile) (\<lambda>geoms.
     let polygon = union_all unary_union geoms in
     then_do (get_coord ds ''lat'') (\<lambda>lat.
     then_do (get_coord ds ''lon'') (\<lambda>lon.
     let msk = polygon_mask polygon lon lat in
     then_do (get_var ds variable) (\<lambda>var.
     let var_data = where_mask var msk;
         mean_data = mean_lat_lon (ntime ds) (length lat) (length lon) var_data
     in Inr mean_data))))"

subsection \<open>grid_data\<close>

text \<open>
  \<open>sel(..., method='nearest')\<close> on one axis: the position of the axis value closest to the
  target. The lookup raises \<open>KeyError\<close> on an empty axis, and the index raises when its
  values are not unique or neither increasing nor decreasing. Of two values at the same
  distance the larger one is taken, as the index library documents.
\<close>

definition strictly_monotonic :: "real list \<Rightarrow> bool" where
  "strictly_monotonic axis = (sorted_wrt (<) axis \<or> sorted_wrt (>) axis)"

fun nearest_from :: "real \<Rightarrow> nat \<Rightarrow> real \<Rightarrow> nat \<Rightarrow> real list \<Rightarrow> nat" where
  "nearest_from x best b k [] = best"
| "nearest_from x best b k (a # axis) =
     (if \<bar>a - x\<bar> < \<bar>b - x\<bar> \<or> (\<bar>a - x\<bar> = \<bar>b - x\<bar> \<and> b < a)
      then nearest_from x k a (Suc k) axis
      else nearest_from x best b (Suc k) axis)"

definition sel_nearest :: "real list \<Rightarrow> real \<Rightarrow> error + nat" where
  "sel_nearest axis x =
     (case axis of
        [] \<Rightarrow> Inl (KeyError ''not all values found in index'')
      | a # rest \<Rightarrow>
          if \<not> distinct axis then Inl InvalidIndexError
          else if \<not> strictly_monotonic axis then Inl ValueError
          else Inr (nearest_from x 0 a 1 rest))"

text \<open>
  The selection that \<open>grid_data\<close> returns: the coordinates of the chosen cell and, for
  every variable, its values at that cell over time. The source first looks up the nearest
  latitude and the nearest longitude, each on its own axis, and then selects the dataset at
  these two coordinate values, again with the nearest lookup.
\<close>

record selection =
  at_lat :: real
  at_lon :: real
  at_ntime :: nat
  at_vars :: "string \<rightharpoonup> (nat \<Rightarrow> real option)"

definition grid_data :: "dataset \<Rightarrow> real \<Rightarrow> real \<Rightarrow> error + selection" where
  "grid_data ds lat_target lon_target =
     then_do (get_coord ds ''lat'') (\<lambda>lat.
     then_do (sel_nearest lat lat_target) (\<lambda>i.
     let lat_idx = lat ! i in
     then_do (get_coord ds ''lon'') (\<lambda>lon.
     then_do (sel_nearest lon lon_target) (\<lambda>j.
     let lon_idx = lon ! j in
     then_do (sel_nearest lat lat_idx) (\<lambda>i.
     then_do (sel_nearest lon lon_idx) (\<lambda>j.
     Inr \<lparr> at_lat = lat ! i, at_lon = lon ! j, at_ntime = ntime ds,
            at_vars = (\<lambda>n. map_option (\<lambda>var t. var t i j) (data_vars ds n)) \<rparr>))))))"

section \<open>Vocabulary of the statements\<close>

text \<open>
  A cell passes both filters of \<open>pm\<close> when it is a number strictly between 0 and 900.
\<close>

definition in_range :: "cell \<Rightarrow> bool" where
  "in_range c = (cell_gt 0 c \<and> cell_lt 900 c)"

text \<open>
  The unmasked spatial mean of a variable, \<open>ds[variable].mean(dim=['lat', 'lon'])\<close>.
\<close>

definition spatial_mean :: "dataset \<Rightarrow> string \<Rightarrow> error + real option list" where
  "spatial_mean ds variable =
     then_do (get_coord ds ''lat'') (\<lambda>lat.
     then_do (get_coord ds ''lon'') (\<lambda>lon.
     then_do (get_var ds variable) (\<lambda>var.
     Inr (mean_lat_lon (ntime ds) (length lat) (length lon) var))))"

section \<open>Sample inputs\<close>

text \<open>
  Sensor files with the nine columns of the air-quality export. The three sample files hold
  the values 100, -5, 950 and 300; their concatenation is \<open>sample_table\<close>. The last file
  has no \<open>location\<close> column.
\<close>

definition openaq_table :: "string list \<Rightarrow> cell list \<Rightarrow> cell list \<Rightarrow> dataframe" where
  "openaq_table ts locs vs =
     \<lparr> index = range_index (length vs),
       columns =
         [(''location_id'', map (\<lambda>v. Num 7) vs), (''sensors_id'', map (\<lambda>v. Num 21) vs),
          (''location'', locs), (''datetime'', map Str ts),
          (''lat'', map (\<lambda>v. Num 31.5) vs), (''lon'', map (\<lambda>v. Num 74.25) vs),
          (''parameter'', map (\<lambda>v. Str ''pm25'') vs), (''units'', map (\<lambda>v. Str ''ug/m3'') vs),
          (''value'', vs)] \<rparr>"

definition sample_files :: "dataframe option list" where
  "sample_files =
     [Some (openaq_table [''2024-01-01''] [Str ''Lahore''] [Num 100]),
      Some (openaq_table [''2024-01-02'', ''2024-01-03''] [NaN, NaN] [Num (- 5), Num 950]),
      Some (openaq_table [''2024-01-04''] [NaN] [Num 300])]"

definition sample_table :: dataframe where
  "sample_table =
     openaq_table [''2024-01-01'', ''2024-01-02'', ''2024-01-03'', ''2024-01-04'']
       [Str ''Lahore'', NaN, NaN, NaN] [Num 100, Num (- 5), Num 950, Num 300]"

definition no_location_file :: dataframe where
  "no_location_file =
     \<lparr> index = range_index 1,
       columns =
         [(''location_id'', [Num 7]), (''sensors_id'', [Num 21]), (''datetime'', [Str ''2024-01-01'']),
          (''lat'', [Num 31.5]), (''lon'', [Num 74.25]), (''parameter'', [Str ''pm25'']),
          (''units'', [Str ''ug/m3'']), (''value'', [Num 100])] \<rparr>"

text \<open>
  A 3 by 3 grid with two time steps and one variable, which is missing at one cell of the
  second time step; a second variable that differs from it at the cell (lat 20, lon 10) only.
  Axis-parallel rectangles as geometries, and a union that is exact for shapes that do not
  touch each other.
\<close>

definition sample_var :: variable where
  "sample_var = (\<lambda>t i j. if t = 1 \<and> i = 0 \<and> j = 0 then None else Some (real (100 * t + 10 * i + j)))"

definition sample_var' :: variable where
  "sample_var' = (\<lambda>t i j. if i = 1 \<and> j = 0 then Some 999 else sample_var t i j)"

definition sample_ds :: dataset where
  "sample_ds = \<lparr> coords = [''lat'' \<mapsto> [10, 20, 30], ''lon'' \<mapsto> [10, 20, 30]],
                  ntime = 2,
                  data_vars = [''T2M'' \<mapsto> sample_var] \<rparr>"

definition box :: "real \<Rightarrow> real \<Rightarrow> real \<Rightarrow> real \<Rightarrow> geometry" where
  "box x0 y0 x1 y1 =
     (\<lambda>(x, y).
        if x0 < x \<and> x < x1 \<and> y0 < y \<and> y < y1 then Interior
        else if x0 \<le> x \<and> x \<le> x1 \<and> y0 \<le> y \<and> y \<le> y1 then Boundary
        else Exterior)"

definition pointwise_union :: "geometry list \<Rightarrow> geometry" where
  "pointwise_union gs =
     (\<lambda>p. if list_ex (\<lambda>g. g p = Interior) gs then Interior
          else if list_ex (\<lambda>g. g p = Boundary) gs then Boundary
          else Exterior)"

section \<open>Results about pm\<close>

subsection \<open>Facts about the table operations\<close>

lemma then_do_Inr: "then_do m f = Inr y \<Longrightarrow> \<exists>x. m = Inr x \<and> f x = Inr y"
  by (cases m) (simp_all add: then_do_def)

lemma select_map_self: "select (map p xs) xs = filter p xs"
  by (induction xs) (auto simp: select_def)

lemma select_Nil [simp]: "select [] xs = []" "select m [] = []"
  by (simp_all add: select_def)

lemma select_Cons [simp]:
  "select (b # m) (x # xs) = (if b then x # select m xs else select m xs)"
  by (simp add: select_def)

lemma select_twice:
  "select (map q (select (map p v) v)) (select (map p v) xs) =
   select (map (\<lambda>c. p c \<and> q c) v) xs"
proof (induction v arbitrary: xs)
  case Nil
  then show ?case by simp
next
  case (Cons a v)
  then show ?case by (cases xs) auto
qed

lemma length_select_eq:
  "length xs = length ys \<Longrightarrow> length (select (map p ys) xs) = length (filter p ys)"
  by (induction xs ys rule: list_induct2) simp_all

lemma ffill_from_no_missing: "NaN \<notin> set cs \<Longrightarrow> ffill_from p cs = cs"
  by (induction cs arbitrary: p) auto

lemma length_ffill_from [simp]: "length (ffill_from p cs) = length cs"
  by (induction cs arbitrary: p) auto

lemma ffill_from_nth:
  "i < length cs \<Longrightarrow>
   ffill_from p cs ! i =
     (case filter (\<lambda>c. c \<noteq> NaN) (take (Suc i) cs) of [] \<Rightarrow> p | y # ys \<Rightarrow> last (y # ys))"
proof (induction cs arbitrary: p i)
  case Nil
  then show ?case by simp
next
  case (Cons c cs)
  show ?case
  proof (cases i)
    case 0
    then show ?thesis by simp
  next
    case (Suc j)
    with Cons.prems have j: "j < length cs" by simp
    show ?thesis
      using Cons.IH [OF j] Suc by (auto split: list.splits)
  qed
qed

lemma ffill_column_nth:
  "i < length cs \<Longrightarrow>
   ffill_column cs ! i =
     (case filter (\<lambda>c. c \<noteq> NaN) (take (Suc i) cs) of [] \<Rightarrow> NaN | y # ys \<Rightarrow> last (y # ys))"
  unfolding ffill_column_def by (rule ffill_from_nth)

lemma ffill_from_keeps: "i < length cs \<Longrightarrow> cs ! i \<noteq> NaN \<Longrightarrow> ffill_from p cs ! i = cs ! i"
proof (induction cs arbitrary: p i)
  case Nil
  then show ?case by simp
next
  case (Cons c cs)
  then show ?case by (cases i) auto
qed

lemma map_of_rename:
  assumes "\<forall>n. (g n = k) = (n = k)"
  shows "map_of (map (\<lambda>(n, vs). (g n, f vs)) cols) k = map_option f (map_of cols k)"
proof (induction cols)
  case Nil
  show ?case by simp
next
  case (Cons c cols)
  obtain n vs where c: "c = (n, vs)" by (cases c)
  from assms have "(g n = k) = (n = k)" by blast
  with Cons c show ?case by auto
qed

lemma map_of_setitem:
  "map_of (map (\<lambda>(n, vs). (n, if n = k then ws else vs)) cols) k =
   map_option (\<lambda>vs. ws) (map_of cols k)"
  by (induction cols) auto

lemma map_of_filter_key:
  "P k \<Longrightarrow> map_of (filter (\<lambda>(n, vs). P n) cols) k = map_of cols k"
  by (induction cols) auto

lemma final_columns:
  assumes "\<forall>n. (g n = k) = (n = k)"
  shows "filter (\<lambda>(n, vs). n \<noteq> k)
           (map (\<lambda>(n, vs). (n, if n = k then ts else vs))
              (map (\<lambda>(n, vs). (g n, F vs)) cols)) =
         map (\<lambda>(n, vs). (g n, F vs)) (filter (\<lambda>(n, vs). n \<noteq> k) cols)"
proof (induction cols)
  case Nil
  show ?case by simp
next
  case (Cons c cols)
  obtain n vs where c: "c = (n, vs)" by (cases c)
  from assms have "(g n = k) = (n = k)" by blast
  with Cons c show ?case by auto
qed

lemma select_rows_twice:
  "columns (select_rows (map q (select (map p v) v)) (select_rows (map p v) df)) =
   map (\<lambda>(n, vs). (n, select (map (\<lambda>c. p c \<and> q c) v) vs)) (columns df)"
  by (simp add: select_rows_def select_twice case_prod_unfold)

lemma drop_columns_Inr:
  "drop_columns names df0 = Inr df \<Longrightarrow>
   df = df0\<lparr>columns := filter (\<lambda>(n, vs). n \<notin> set names) (columns df0)\<rparr>"
  by (auto simp: drop_columns_def split: list.splits)

lemma in_range_iff: "in_range c = (\<exists>x. c = Num x \<and> 0 < x \<and> x < 900)"
  by (cases c) (simp_all add: in_range_def cell_gt_def cell_lt_def)

lemma ffill_filter_in_range: "ffill_column (filter in_range v) = filter in_range v"
  unfolding ffill_column_def by (rule ffill_from_no_missing) (auto simp: in_range_iff)

lemma concat_files_iff:
  "then_do (read_all files) pd_concat = Inr df0 \<longleftrightarrow>
   (\<exists>df_list. those files = Some df_list \<and> pd_concat df_list = Inr df0)"
  by (auto simp: read_all_def then_do_def split: option.splits)

lemma those_length: "those xs = Some ys \<Longrightarrow> length ys = length xs"
  by (induction xs arbitrary: ys) (auto split: option.splits)

lemma those_all_Some: "those xs = Some ys \<Longrightarrow> xs = map Some ys"
  by (induction xs arbitrary: ys) (auto split: option.splits)

lemma wf_column_length:
  "wf_frame df \<Longrightarrow> map_of (columns df) n = Some vs \<Longrightarrow> length vs = nrows df"
  by (auto simp: wf_frame_def list_all_iff dest: map_of_SomeD)

lemma length_column_or_missing: "wf_frame df \<Longrightarrow> length (column_or_missing n df) = nrows df"
  by (auto simp: column_or_missing_def wf_column_length split: option.splits)

lemma wf_pd_concat:
  assumes "\<forall>df\<in>set df_list. wf_frame df" and "pd_concat df_list = Inr df0"
  shows "wf_frame df0"
proof -
  have "length (concat (map (column_or_missing n) df_list)) = sum_list (map nrows df_list)" for n
    using assms(1) by (induction df_list) (simp_all add: length_column_or_missing)
  with assms(2) show ?thesis
    by (auto simp: pd_concat_def wf_frame_def list_all_iff nrows_def range_index_def
          split: if_splits)
qed

subsection \<open>What pm returns\<close>

text \<open>
  Whenever \<open>pm\<close> returns, every step before has succeeded, and the result is determined by
  the table after the optional pruning: its rows are the rows whose value is in range, every
  column is forward-filled, \<open>value\<close> is renamed and \<open>datetime\<close> becomes the index.
\<close>

lemma pm_returns_form:
  assumes "pm parse files dd = Inr out"
  shows "\<exists>df_list df0 df v d ts.
     those files = Some df_list \<and> pd_concat df_list = Inr df0 \<and>
     (if dd then drop_columns drop_cols df0 else Inr df0) = Inr df \<and>
     map_of (columns df) ''value'' = Some v \<and> \<not> list_ex is_str v \<and>
     map_of (columns df) ''datetime'' = Some d \<and>
     those (map parse (ffill_column (select (map in_range v) d))) = Some ts \<and>
     out = \<lparr>index = ts,
            columns = map (\<lambda>(n, vs). (if n = ''value'' then ''pm2.5'' else n,
                                      ffill_column (select (map in_range v) vs)))
                        (filter (\<lambda>(n, vs). n \<noteq> ''datetime'') (columns df))\<rparr>"
proof -
  from assms obtain df_list where r: "read_all files = Inr df_list"
    and 1: "then_do (pd_concat df_list) (\<lambda>df.
     then_do (if dd then drop_columns drop_cols df else Inr df) (\<lambda>df.
     then_do (getitem df ''value'') (\<lambda>v.
     then_do (series_gt v 0) (\<lambda>msk.
     let df = select_rows msk df in
     then_do (getitem df ''value'') (\<lambda>v.
     then_do (series_lt v 900) (\<lambda>msk.
     let df = select_rows msk df;
         df = ffill df;
         df = rename_column ''value'' ''pm2.5'' df in
     then_do (getitem df ''datetime'') (\<lambda>d.
     then_do (to_datetime parse d) (\<lambda>ts.
     let df = setitem ''datetime'' ts df in
     set_index ''datetime'' df)))))))) = Inr out"
    unfolding pm_def by (blast dest: then_do_Inr)
  from r have files: "those files = Some df_list"
    by (simp add: read_all_def split: option.splits)
  from 1 obtain df0 where c: "pd_concat df_list = Inr df0"
    and 2: "then_do (if dd then drop_columns drop_cols df0 else Inr df0) (\<lambda>df.
     then_do (getitem df ''value'') (\<lambda>v.
     then_do (series_gt v 0) (\<lambda>msk.
     let df = select_rows msk df in
     then_do (getitem df ''value'') (\<lambda>v.
     then_do (series_lt v 900) (\<lambda>msk.
     let df = select_rows msk df;
         df = ffill df;
         df = rename_column ''value'' ''pm2.5'' df in
     then_do (getitem df ''datetime'') (\<lambda>d.
     then_do (to_datetime parse d) (\<lambda>ts.
     let df = setitem ''datetime'' ts df in
     set_index ''datetime'' df))))))) = Inr out"
    by (blast dest: then_do_Inr)
  from 2 obtain df where d: "(if dd then drop_columns drop_cols df0 else Inr df0) = Inr df"
    and 3: "then_do (getitem df ''value'') (\<lambda>v.
     then_do (series_gt v 0) (\<lambda>msk.
     let df = select_rows msk df in
     then_do (getitem df ''value'') (\<lambda>v.
     then_do (series_lt v 900) (\<lambda>msk.
     let df = select_rows msk df;
         df = ffill df;
         df = rename_column ''value'' ''pm2.5'' df in
     then_do (getitem df ''datetime'') (\<lambda>d.
     then_do (to_datetime parse d) (\<lambda>ts.
     let df = setitem ''datetime'' ts df in
     set_index ''datetime'' df)))))) = Inr out"
    by (blast dest: then_do_Inr)
  from 3 obtain v where gv: "getitem df ''value'' = Inr v"
    and 4: "then_do (series_gt v 0) (\<lambda>msk.
     let df = select_rows msk df in
     then_do (getitem df ''value'') (\<lambda>v.
     then_do (series_lt v 900) (\<lambda>msk.
     let df = select_rows msk df;
         df = ffill df;
         df = rename_column ''value'' ''pm2.5'' df in
     then_do (getitem df ''datetime'') (\<lambda>d.
     then_do (to_datetime parse d) (\<lambda>ts.
     let df = setitem ''datetime'' ts df in
     set_index ''datetime'' df))))) = Inr out"
    by (blast dest: then_do_Inr)
  from gv have v: "map_of (columns df) ''value'' = Some v"
    by (simp add: getitem_def split: option.splits)
  from 4 have nostr: "\<not> list_ex is_str v"
    by (auto simp: series_gt_def then_do_def split: if_splits)
  define m1 where "m1 = map (cell_gt 0) v"
  define v1 where "v1 = select m1 v"
  have gv1: "getitem (select_rows m1 df) ''value'' = Inr v1"
    by (simp add: getitem_def select_rows_def map_of_map v v1_def)
  from 4 nostr have 5: "then_do (series_lt v1 900) (\<lambda>msk.
     let df = select_rows msk (select_rows m1 df);
         df = ffill df;
         df = rename_column ''value'' ''pm2.5'' df in
     then_do (getitem df ''datetime'') (\<lambda>d.
     then_do (to_datetime parse d) (\<lambda>ts.
     let df = setitem ''datetime'' ts df in
     set_index ''datetime'' df))) = Inr out"
    by (simp add: series_gt_def then_do_def [of "Inr x" for x] m1_def [symmetric] gv1 Let_def)
  define m2 where "m2 = map (cell_lt 900) v1"
  define F where "F = (\<lambda>vs :: cell list. ffill_column (select (map in_range v) vs))"
  define df5 where "df5 = rename_column ''value'' ''pm2.5'' (ffill (select_rows m2 (select_rows m1 df)))"
  define g where "g = (\<lambda>n :: string. if n = ''value'' then ''pm2.5'' else n)"
  have g: "\<forall>n. (g n = ''datetime'') = (n = ''datetime'')"
    by (simp add: g_def)
  have cols5: "columns df5 = map (\<lambda>(n, vs). (g n, F vs)) (columns df)"
    unfolding df5_def m2_def v1_def m1_def rename_column_def ffill_def
    by (simp add: select_rows_twice F_def g_def in_range_def [abs_def] case_prod_unfold comp_def)
  from 5 have 6: "then_do (getitem df5 ''datetime'') (\<lambda>d.
     then_do (to_datetime parse d) (\<lambda>ts.
     let df = setitem ''datetime'' ts df5 in
     set_index ''datetime'' df)) = Inr out"
    by (auto simp: series_lt_def then_do_def [of "Inr x" for x] m2_def df5_def Let_def
          split: if_splits) (simp add: then_do_def)
  from 6 obtain d5 where gd: "getitem df5 ''datetime'' = Inr d5"
    and 7: "then_do (to_datetime parse d5) (\<lambda>ts.
     let df = setitem ''datetime'' ts df5 in
     set_index ''datetime'' df) = Inr out"
    by (blast dest: then_do_Inr)
  have mo5: "map_of (columns df5) ''datetime'' = map_option F (map_of (columns df) ''datetime'')"
    unfolding cols5 by (rule map_of_rename [OF g])
  from gd obtain d where d0: "map_of (columns df) ''datetime'' = Some d" and d5: "d5 = F d"
    by (auto simp: getitem_def mo5 split: option.splits)
  from 7 obtain ts where ts: "to_datetime parse d5 = Inr ts"
    and 8: "set_index ''datetime'' (setitem ''datetime'' ts df5) = Inr out"
    by (auto dest: then_do_Inr simp: Let_def)
  from ts have ts': "those (map parse (F d)) = Some ts"
    by (simp add: to_datetime_def d5 split: option.splits)
  have "getitem (setitem ''datetime'' ts df5) ''datetime'' = Inr ts"
    using gd by (simp add: getitem_def setitem_def map_of_setitem split: option.splits)
  with 8 have out: "out = \<lparr>index = ts,
      columns = filter (\<lambda>(n, vs). n \<noteq> ''datetime'') (columns (setitem ''datetime'' ts df5))\<rparr>"
    by (simp add: set_index_def then_do_def)
  have "filter (\<lambda>(n, vs). n \<noteq> ''datetime'') (columns (setitem ''datetime'' ts df5)) =
        map (\<lambda>(n, vs). (g n, F vs)) (filter (\<lambda>(n, vs). n \<noteq> ''datetime'') (columns df))"
    unfolding setitem_def cols5 using final_columns [OF g] by simp
  with out have "out = \<lparr>index = ts,
      columns = map (\<lambda>(n, vs). (g n, F vs)) (filter (\<lambda>(n, vs). n \<noteq> ''datetime'') (columns df))\<rparr>"
    by simp
  with files c d v nostr d0 ts' show ?thesis
    unfolding F_def g_def by blast
qed

lemma pm_returns_table:
  assumes "pm parse files dd = Inr out"
  shows "\<exists>df0 v d.
     then_do (read_all files) pd_concat = Inr df0 \<and>
     getitem df0 ''value'' = Inr v \<and> getitem df0 ''datetime'' = Inr d \<and>
     those (map parse (ffill_column (select (map in_range v) d))) = Some (index out) \<and>
     columns out =
       map (\<lambda>(n, vs). (if n = ''value'' then ''pm2.5'' else n,
                        ffill_column (select (map in_range v) vs)))
         (filter (\<lambda>(n, vs). n \<noteq> ''datetime'' \<and> (dd \<longrightarrow> n \<notin> set drop_cols)) (columns df0))"
proof -
  from pm_returns_form [OF assms] obtain df_list df0 df v d ts where
    f: "those files = Some df_list" "pd_concat df_list = Inr df0"
    and dr: "(if dd then drop_columns drop_cols df0 else Inr df0) = Inr df"
    and v: "map_of (columns df) ''value'' = Some v"
    and d: "map_of (columns df) ''datetime'' = Some d"
    and ts: "those (map parse (ffill_column (select (map in_range v) d))) = Some ts"
    and out: "out = \<lparr>index = ts,
            columns = map (\<lambda>(n, vs). (if n = ''value'' then ''pm2.5'' else n,
                                      ffill_column (select (map in_range v) vs)))
                        (filter (\<lambda>(n, vs). n \<noteq> ''datetime'') (columns df))\<rparr>"
    by blast
  have cols: "columns df = filter (\<lambda>(n, vs). dd \<longrightarrow> n \<notin> set drop_cols) (columns df0)"
    using dr by (cases dd) (auto dest: drop_columns_Inr)
  have "map_of (columns df) ''value'' = map_of (columns df0) ''value''"
    unfolding cols by (rule map_of_filter_key) (simp add: drop_cols_def)
  with v have v0: "getitem df0 ''value'' = Inr v" by (simp add: getitem_def)
  have "map_of (columns df) ''datetime'' = map_of (columns df0) ''datetime''"
    unfolding cols by (rule map_of_filter_key) (simp add: drop_cols_def)
  with d have d0: "getitem df0 ''datetime'' = Inr d" by (simp add: getitem_def)
  have flt: "filter (\<lambda>(n, vs). n \<noteq> ''datetime'') (columns df) =
      filter (\<lambda>(n, vs). n \<noteq> ''datetime'' \<and> (dd \<longrightarrow> n \<notin> set drop_cols)) (columns df0)"
    unfolding cols by (simp add: case_prod_unfold conj_commute)
  from f have "then_do (read_all files) pd_concat = Inr df0"
    by (auto simp: concat_files_iff)
  with v0 d0 ts out flt show ?thesis by simp
qed

subsection \<open>The sample files\<close>

lemmas pm_defs = pm_def read_all_def then_do_def pd_concat_def
     range_index_def nrows_def column_names_def column_or_missing_def drop_columns_def drop_cols_def
     getitem_def series_gt_def series_lt_def is_str_def cell_gt_def cell_lt_def select_rows_def
     ffill_def ffill_column_def rename_column_def to_datetime_def setitem_def set_index_def

lemma sample_concat: "then_do (read_all sample_files) pd_concat = Inr sample_table"
  by (simp add: sample_files_def sample_table_def openaq_table_def read_all_def then_do_def
        pd_concat_def range_index_def nrows_def column_names_def column_or_missing_def upt_rec)

lemma sample_pm_drop:
  "pm Some sample_files True =
     Inr \<lparr>index = [Str ''2024-01-01'', Str ''2024-01-04''],
          columns = [(''pm2.5'', [Num 100, Num 300])]\<rparr>"
  by (simp add: sample_files_def openaq_table_def pm_defs)

lemma sample_pm_keep:
  "pm Some sample_files False =
     Inr \<lparr>index = [Str ''2024-01-01'', Str ''2024-01-04''],
          columns =
            [(''location_id'', [Num 7, Num 7]), (''sensors_id'', [Num 21, Num 21]),
             (''location'', [Str ''Lahore'', Str ''Lahore'']),
             (''lat'', [Num 31.5, Num 31.5]), (''lon'', [Num 74.25, Num 74.25]),
             (''parameter'', [Str ''pm25'', Str ''pm25'']),
             (''units'', [Str ''ug/m3'', Str ''ug/m3'']),
             (''pm2.5'', [Num 100, Num 300])]\<rparr>"
  by (simp add: sample_files_def openaq_table_def pm_defs)

lemma sample_files_wf: "\<forall>f\<in>set sample_files. \<forall>df. f = Some df \<longrightarrow> wf_frame df"
  by (simp add: sample_files_def openaq_table_def wf_frame_def nrows_def range_index_def)

subsection \<open>Claims\<close>

text \<open>
  C6. When the search finds no file, the list of tables to concatenate is empty and
  \<open>pm\<close> raises the \<open>ValueError\<close> of the concatenation: it does not return an empty
  table.
\<close>

theorem pm_no_files_raises: "pm parse [] do_drop = Inl ValueError"
  by (simp add: pm_def read_all_def then_do_def pd_concat_def)

theorem pm_no_files_raises_witness: "pm Some [] True = Inl ValueError"
  using pm_no_files_raises [of Some True] by simp

text \<open>
  C1. Whenever \<open>pm\<close> returns, the returned table has the column \<open>pm2.5\<close> that holds
  exactly the in-range cells of the \<open>value\<close> column of the concatenated input, in order,
  and each of its cells is a number strictly greater than 0 and strictly less than 900.
\<close>

theorem pm_value_in_range:
  assumes "pm parse files do_drop = Inr out"
  shows "\<exists>df v. then_do (read_all files) pd_concat = Inr df \<and> getitem df ''value'' = Inr v \<and>
           (''pm2.5'', filter in_range v) \<in> set (columns out) \<and>
           (\<forall>c\<in>set (filter in_range v). \<exists>x. c = Num x \<and> 0 < x \<and> x < 900)"
proof -
  from pm_returns_table [OF assms] obtain df0 v where
    t: "then_do (read_all files) pd_concat = Inr df0" and v: "getitem df0 ''value'' = Inr v"
    and cols: "columns out =
       map (\<lambda>(n, vs). (if n = ''value'' then ''pm2.5'' else n,
                        ffill_column (select (map in_range v) vs)))
         (filter (\<lambda>(n, vs). n \<noteq> ''datetime'' \<and> (do_drop \<longrightarrow> n \<notin> set drop_cols)) (columns df0))"
    by blast
  from v have "(''value'', v) \<in> set (columns df0)"
    by (auto simp: getitem_def split: option.splits dest: map_of_SomeD)
  then have "(''value'', v) \<in> set (filter (\<lambda>(n, vs). n \<noteq> ''datetime'' \<and> (do_drop \<longrightarrow> n \<notin> set drop_cols)) (columns df0))"
    by (simp add: drop_cols_def)
  then have "(''pm2.5'', ffill_column (select (map in_range v) v)) \<in> set (columns out)"
    unfolding cols by force
  then have "(''pm2.5'', filter in_range v) \<in> set (columns out)"
    by (simp add: select_map_self ffill_filter_in_range)
  with t v show ?thesis by (auto simp: in_range_iff)
qed

theorem pm_value_in_range_witness:
  "pm Some sample_files True =
     Inr \<lparr>index = [Str ''2024-01-01'', Str ''2024-01-04''],
          columns = [(''pm2.5'', [Num 100, Num 300])]\<rparr> \<and>
   (\<exists>df v. then_do (read_all sample_files) pd_concat = Inr df \<and> getitem df ''value'' = Inr v \<and>
       filter in_range v = [Num 100, Num 300] \<and>
       (\<forall>c\<in>set (filter in_range v). \<exists>x. c = Num x \<and> 0 < x \<and> x < 900))"
proof -
  from pm_value_in_range [OF sample_pm_drop] obtain df v where
    a: "then_do (read_all sample_files) pd_concat = Inr df" "getitem df ''value'' = Inr v"
    and b: "(''pm2.5'', filter in_range v) \<in> set [(''pm2.5'', [Num 100, Num 300])]"
    and c: "\<forall>c\<in>set (filter in_range v). \<exists>x. c = Num x \<and> 0 < x \<and> x < 900"
    by auto
  from b have "filter in_range v = [Num 100, Num 300]" by simp
  with a c sample_pm_drop show ?thesis by blast
qed

text \<open>
  C2, as stated, fails. The claim says that a row whose value fails the range filter keeps
  an entry at its time stamp, filled with the preceding valid value. On the sample files
  the rows of 2024-01-02 (value -5) and 2024-01-03 (value 950) are absent from the result:
  the boolean selection removes the rows, it does not blank their value.
\<close>

theorem pm_out_of_range_row_counterexample:
  "then_do (then_do (read_all sample_files) pd_concat) (\<lambda>df. getitem df ''value'') =
     Inr [Num 100, Num (- 5), Num 950, Num 300] \<and>
   then_do (then_do (read_all sample_files) pd_concat) (\<lambda>df. getitem df ''datetime'') =
     Inr [Str ''2024-01-01'', Str ''2024-01-02'', Str ''2024-01-03'', Str ''2024-01-04''] \<and>
   pm Some sample_files True =
     Inr \<lparr>index = [Str ''2024-01-01'', Str ''2024-01-04''],
          columns = [(''pm2.5'', [Num 100, Num 300])]\<rparr>"
  by (simp add: sample_concat sample_pm_drop)
     (simp add: then_do_def getitem_def sample_table_def openaq_table_def)

text \<open>
  C2, amended. A row whose value fails the range filter (or is missing) is removed
  entirely. For well-formed input tables the result has exactly one row for each input
  row whose value lies strictly between 0 and 900, in input order: its index is the parsed
  (forward-filled) \<open>datetime\<close> column restricted to these rows, and its \<open>pm2.5\<close> column
  holds these rows' own values.
\<close>

theorem pm_removes_out_of_range_rows:
  assumes "pm parse files do_drop = Inr out"
    and "\<forall>f\<in>set files. \<forall>df. f = Some df \<longrightarrow> wf_frame df"
  shows "\<exists>df v d.
     then_do (read_all files) pd_concat = Inr df \<and>
     getitem df ''value'' = Inr v \<and> getitem df ''datetime'' = Inr d \<and>
     those (map parse (ffill_column (select (map in_range v) d))) = Some (index out) \<and>
     length (index out) = length (filter in_range v) \<and>
     (''pm2.5'', filter in_range v) \<in> set (columns out)"
proof -
  from pm_returns_table [OF assms(1)] obtain df0 v d where
    t: "then_do (read_all files) pd_concat = Inr df0"
    and v: "getitem df0 ''value'' = Inr v" and d: "getitem df0 ''datetime'' = Inr d"
    and ts: "those (map parse (ffill_column (select (map in_range v) d))) = Some (index out)"
    and cols: "columns out =
       map (\<lambda>(n, vs). (if n = ''value'' then ''pm2.5'' else n,
                        ffill_column (select (map in_range v) vs)))
         (filter (\<lambda>(n, vs). n \<noteq> ''datetime'' \<and> (do_drop \<longrightarrow> n \<notin> set drop_cols)) (columns df0))"
    by blast
  from t obtain df_list where dl: "those files = Some df_list" "pd_concat df_list = Inr df0"
    by (auto simp: concat_files_iff)
  from dl(1) have "files = map Some df_list" by (rule those_all_Some)
  with assms(2) have "\<forall>df\<in>set df_list. wf_frame df" by auto
  then have wf: "wf_frame df0" using dl(2) by (rule wf_pd_concat)
  from v d have "length v = nrows df0" "length d = nrows df0"
    by (auto simp: getitem_def wf_column_length [OF wf] split: option.splits)
  then have "length d = length v" by simp
  then have "length (select (map in_range v) d) = length (filter in_range v)"
    by (rule length_select_eq)
  with those_length [OF ts] have len: "length (index out) = length (filter in_range v)"
    by (simp add: ffill_column_def)
  from v have "(''value'', v) \<in> set (columns df0)"
    by (auto simp: getitem_def split: option.splits dest: map_of_SomeD)
  then have "(''value'', v) \<in> set (filter (\<lambda>(n, vs). n \<noteq> ''datetime'' \<and> (do_drop \<longrightarrow> n \<notin> set drop_cols)) (columns df0))"
    by (simp add: drop_cols_def)
  then have "(''pm2.5'', ffill_column (select (map in_range v) v)) \<in> set (columns out)"
    unfolding cols by force
  then have "(''pm2.5'', filter in_range v) \<in> set (columns out)"
    by (simp add: select_map_self ffill_filter_in_range)
  with t v d ts len show ?thesis by blast
qed

theorem pm_removes_out_of_range_rows_witness:
  "pm Some sample_files True =
     Inr \<lparr>index = [Str ''2024-01-01'', Str ''2024-01-04''],
          columns = [(''pm2.5'', [Num 100, Num 300])]\<rparr> \<and>
   list_all (\<lambda>f. case f of Some df \<Rightarrow> wf_frame df | None \<Rightarrow> False) sample_files \<and>
   (\<exists>v. getitem sample_table ''value'' = Inr v \<and> length (filter in_range v) = 2 \<and>
        filter in_range v = [Num 100, Num 300])"
proof -
  from pm_removes_out_of_range_rows [OF sample_pm_drop sample_files_wf] obtain df v where
    a: "then_do (read_all sample_files) pd_concat = Inr df" "getitem df ''value'' = Inr v"
    and b: "length (index \<lparr>index = [Str ''2024-01-01'', Str ''2024-01-04''],
          columns = [(''pm2.5'', [Num 100, Num 300])]\<rparr>) = length (filter in_range v)"
    and c: "(''pm2.5'', filter in_range v) \<in> set (columns \<lparr>index = [Str ''2024-01-01'', Str ''2024-01-04''],
          columns = [(''pm2.5'', [Num 100, Num 300])]\<rparr>)"
    by blast
  from a(1) have "df = sample_table" by (simp add: sample_concat)
  moreover have "list_all (\<lambda>f. case f of Some df \<Rightarrow> wf_frame df | None \<Rightarrow> False) sample_files"
    by (simp add: sample_files_def openaq_table_def wf_frame_def nrows_def range_index_def)
  ultimately show ?thesis using a b c sample_pm_drop by simp
qed

text \<open>
  C3, as stated, fails. With \<open>drop=False\<close> the \<open>location\<close> column of the sample files
  is missing in the surviving row of 2024-01-04, and the result holds \<open>Lahore\<close> there: the
  forward fill has replaced the missing cell by the cell of the surviving row above.
\<close>

theorem pm_keep_columns_counterexample:
  "then_do (then_do (read_all sample_files) pd_concat) (\<lambda>df. getitem df ''value'') =
     Inr [Num 100, Num (- 5), Num 950, Num 300] \<and>
   then_do (then_do (read_all sample_files) pd_concat) (\<lambda>df. getitem df ''location'') =
     Inr [Str ''Lahore'', NaN, NaN, NaN] \<and>
   then_do (pm Some sample_files False) (\<lambda>out. getitem out ''location'') =
     Inr [Str ''Lahore'', Str ''Lahore'']"
  by (simp add: sample_concat sample_pm_keep)
     (simp add: then_do_def getitem_def sample_table_def openaq_table_def)

text \<open>
  C3, amended. With \<open>drop=False\<close>, every column of the concatenated table other than
  \<open>value\<close> and \<open>datetime\<close> appears in the result under its name, with one cell per
  surviving row. A cell that is not missing is unchanged. A missing cell holds the nearest
  non-missing cell of the same column among the surviving rows above it, and stays missing
  when there is none.
\<close>

theorem pm_keep_retains_columns:
  assumes "pm parse files False = Inr out"
    and "then_do (read_all files) pd_concat = Inr df" and "getitem df ''value'' = Inr v"
    and "(n, vs) \<in> set (columns df)" and "n \<noteq> ''value''" and "n \<noteq> ''datetime''"
  shows "let kept = select (map in_range v) vs; ws = ffill_column kept in
         (n, ws) \<in> set (columns out) \<and> length ws = length kept \<and>
         (\<forall>i<length kept. kept ! i \<noteq> NaN \<longrightarrow> ws ! i = kept ! i) \<and>
         (\<forall>i<length kept. kept ! i = NaN \<longrightarrow>
            ws ! i = (case filter (\<lambda>c. c \<noteq> NaN) (take i kept) of
                        [] \<Rightarrow> NaN | y # ys \<Rightarrow> last (y # ys)))"
proof -
  define kept where "kept = select (map in_range v) vs"
  from pm_returns_table [OF assms(1)] assms(2,3) have
    cols: "columns out =
       map (\<lambda>(n, vs). (if n = ''value'' then ''pm2.5'' else n,
                        ffill_column (select (map in_range v) vs)))
         (filter (\<lambda>(n, vs). n \<noteq> ''datetime'') (columns df))"
    by auto
  from assms(4,6) have "(n, vs) \<in> set (filter (\<lambda>(n, vs). n \<noteq> ''datetime'') (columns df))"
    by simp
  then have "(if n = ''value'' then ''pm2.5'' else n, ffill_column kept) \<in> set (columns out)"
    unfolding cols kept_def by force
  with assms(5) have 1: "(n, ffill_column kept) \<in> set (columns out)" by simp
  have 2: "length (ffill_column kept) = length kept" by (simp add: ffill_column_def)
  have 3: "\<forall>i<length kept. kept ! i \<noteq> NaN \<longrightarrow> ffill_column kept ! i = kept ! i"
    by (simp add: ffill_column_def ffill_from_keeps)
  have 4: "\<forall>i<length kept. kept ! i = NaN \<longrightarrow>
            ffill_column kept ! i = (case filter (\<lambda>c. c \<noteq> NaN) (take i kept) of
                        [] \<Rightarrow> NaN | y # ys \<Rightarrow> last (y # ys))"
    by (simp add: ffill_column_nth take_Suc_conv_app_nth)
  from 1 2 3 4 show ?thesis by (simp add: kept_def [symmetric] Let_def)
qed

theorem pm_keep_retains_columns_witness:
  "pm Some sample_files False =
     Inr \<lparr>index = [Str ''2024-01-01'', Str ''2024-01-04''],
          columns =
            [(''location_id'', [Num 7, Num 7]), (''sensors_id'', [Num 21, Num 21]),
             (''location'', [Str ''Lahore'', Str ''Lahore'']),
             (''lat'', [Num 31.5, Num 31.5]), (''lon'', [Num 74.25, Num 74.25]),
             (''parameter'', [Str ''pm25'', Str ''pm25'']),
             (''units'', [Str ''ug/m3'', Str ''ug/m3'']),
             (''pm2.5'', [Num 100, Num 300])]\<rparr> \<and>
   then_do (read_all sample_files) pd_concat = Inr sample_table \<and>
   getitem sample_table ''value'' = Inr [Num 100, Num (- 5), Num 950, Num 300] \<and>
   (''location'', [Str ''Lahore'', NaN, NaN, NaN]) \<in> set (columns sample_table) \<and>
   ''location'' \<noteq> ''value'' \<and> ''location'' \<noteq> ''datetime'' \<and>
   select (map in_range [Num 100, Num (- 5), Num 950, Num 300]) [Str ''Lahore'', NaN, NaN, NaN] =
     [Str ''Lahore'', NaN] \<and>
   ffill_column [Str ''Lahore'', NaN] ! 0 = Str ''Lahore'' \<and>
   ffill_column [Str ''Lahore'', NaN] ! 1 = Str ''Lahore''"
proof -
  have v: "getitem sample_table ''value'' = Inr [Num 100, Num (- 5), Num 950, Num 300]"
    by (simp add: getitem_def sample_table_def openaq_table_def)
  have m: "(''location'', [Str ''Lahore'', NaN, NaN, NaN]) \<in> set (columns sample_table)"
    by (simp add: sample_table_def openaq_table_def)
  have n: "''location'' \<noteq> ''value''" "''location'' \<noteq> ''datetime''" by simp_all
  have k: "select (map in_range [Num 100, Num (- 5), Num 950, Num 300])
             [Str ''Lahore'', NaN, NaN, NaN] = [Str ''Lahore'', NaN]"
    by (simp add: in_range_def cell_gt_def cell_lt_def)
  from pm_keep_retains_columns [OF sample_pm_keep sample_concat v m n]
  have "\<forall>i<length [Str ''Lahore'', NaN]. [Str ''Lahore'', NaN] ! i = NaN \<longrightarrow>
            ffill_column [Str ''Lahore'', NaN] ! i =
              (case filter (\<lambda>c. c \<noteq> NaN) (take i [Str ''Lahore'', NaN]) of
                 [] \<Rightarrow> NaN | y # ys \<Rightarrow> last (y # ys))"
    and "\<forall>i<length [Str ''Lahore'', NaN]. [Str ''Lahore'', NaN] ! i \<noteq> NaN \<longrightarrow>
            ffill_column [Str ''Lahore'', NaN] ! i = [Str ''Lahore'', NaN] ! i"
    unfolding k Let_def by blast+
  then have "ffill_column [Str ''Lahore'', NaN] ! 1 = Str ''Lahore''"
    and "ffill_column [Str ''Lahore'', NaN] ! 0 = Str ''Lahore''"
    by force+
  with sample_pm_keep sample_concat v m n k show ?thesis by simp
qed

text \<open>
  C9. With \<open>drop=True\<close>, when one of the seven names of the drop list is not a column of
  the concatenated table, \<open>pm\<close> raises \<open>KeyError\<close> for a name of the drop list that is
  absent; it does not skip the missing column.
\<close>

theorem pm_drop_missing_column_raises:
  assumes "then_do (read_all files) pd_concat = Inr df"
    and "n \<in> set drop_cols" and "n \<notin> set (column_names df)"
  shows "\<exists>m. pm parse files True = Inl (KeyError m) \<and> m \<in> set drop_cols \<and>
             m \<notin> set (column_names df)"
proof -
  from assms(1) obtain df_list where r: "read_all files = Inr df_list"
    and c: "pd_concat df_list = Inr df"
    by (blast dest: then_do_Inr)
  from assms(2,3) have "n \<in> set (filter (\<lambda>n. n \<notin> set (column_names df)) drop_cols)"
    by simp
  then obtain m rest where f: "filter (\<lambda>n. n \<notin> set (column_names df)) drop_cols = m # rest"
    by (cases "filter (\<lambda>n. n \<notin> set (column_names df)) drop_cols") auto
  then have "m \<in> set (filter (\<lambda>n. n \<notin> set (column_names df)) drop_cols)" by simp
  then have m: "m \<in> set drop_cols" "m \<notin> set (column_names df)" by simp_all
  from f have "drop_columns drop_cols df = Inl (KeyError m)"
    by (simp add: drop_columns_def)
  then have "pm parse files True = Inl (KeyError m)"
    by (simp add: pm_def r c then_do_def)
  with m show ?thesis by blast
qed

theorem pm_drop_missing_column_raises_witness:
  "then_do (read_all [Some no_location_file]) pd_concat = Inr no_location_file \<and>
   ''location'' \<in> set drop_cols \<and> ''location'' \<notin> set (column_names no_location_file) \<and>
   pm Some [Some no_location_file] True = Inl (KeyError ''location'')"
proof -
  have c: "then_do (read_all [Some no_location_file]) pd_concat = Inr no_location_file"
    by (simp add: no_location_file_def read_all_def then_do_def pd_concat_def range_index_def
          nrows_def column_names_def column_or_missing_def)
  have d: "''location'' \<in> set drop_cols" by (simp add: drop_cols_def)
  have a: "''location'' \<notin> set (column_names no_location_file)"
    by (simp add: no_location_file_def column_names_def)
  from pm_drop_missing_column_raises [OF c d a, of Some] obtain m where
    m: "pm Some [Some no_location_file] True = Inl (KeyError m)" "m \<in> set drop_cols"
       "m \<notin> set (column_names no_location_file)"
    by blast
  from m(2,3) have "m = ''location''"
    by (auto simp: drop_cols_def no_location_file_def column_names_def)
  with m c d a show ?thesis by simp
qed

section \<open>Results about grid_data\<close>

lemma sel_nearest_lat: "sel_nearest [10, 20, 30] 18 = Inr 1"
  by (simp add: sel_nearest_def strictly_monotonic_def)

lemma sel_nearest_lon: "sel_nearest [10, 20, 30] 22 = Inr 1"
  by (simp add: sel_nearest_def strictly_monotonic_def)

lemma sel_nearest_20: "sel_nearest [10, 20, 30] 20 = Inr 1"
  by (simp add: sel_nearest_def strictly_monotonic_def)

text \<open>
  C4. On a dataset with latitudes 10, 20, 30 and longitudes 10, 20, 30, \<open>grid_data\<close> with
  the target (18, 22) returns the cell at latitude 20 and longitude 20 (position 1 on both
  axes), with the values of every variable at that cell. Each axis is searched on its own:
  18 is nearest to 20 on the latitude axis, 22 is nearest to 20 on the longitude axis.
\<close>

theorem grid_data_scenario:
  assumes "coords ds ''lat'' = Some [10, 20, 30]" and "coords ds ''lon'' = Some [10, 20, 30]"
  shows "grid_data ds 18 22 =
           Inr \<lparr> at_lat = 20, at_lon = 20, at_ntime = ntime ds,
                  at_vars = (\<lambda>n. map_option (\<lambda>var t. var t 1 1) (data_vars ds n)) \<rparr>"
  using assms
  by (simp add: grid_data_def get_coord_def then_do_def sel_nearest_lat sel_nearest_lon sel_nearest_20)

theorem grid_data_scenario_witness:
  "coords sample_ds ''lat'' = Some [10, 20, 30] \<and> coords sample_ds ''lon'' = Some [10, 20, 30] \<and>
   grid_data sample_ds 18 22 =
     Inr \<lparr> at_lat = 20, at_lon = 20, at_ntime = 2,
            at_vars = (\<lambda>n. map_option (\<lambda>var t. var t 1 1) (data_vars sample_ds n)) \<rparr> \<and>
   map_option (\<lambda>var. [var 0 1 1, var 1 1 1]) (data_vars sample_ds ''T2M'') =
     Some [Some 11, Some 111]"
proof -
  have c: "coords sample_ds ''lat'' = Some [10, 20, 30]" "coords sample_ds ''lon'' = Some [10, 20, 30]"
    by (simp_all add: sample_ds_def)
  have n: "ntime sample_ds = 2" by (simp add: sample_ds_def)
  have v: "map_option (\<lambda>var. [var 0 1 1, var 1 1 1]) (data_vars sample_ds ''T2M'') =
     Some [Some 11, Some 111]"
    by (simp add: sample_ds_def sample_var_def)
  from grid_data_scenario [OF c] c n v show ?thesis by simp
qed

section \<open>Results about mean_polygon\<close>

subsection \<open>Facts about the mask and the mean\<close>

lemma length_meshgrid: "length (meshgrid_points lon lat) = length lat * length lon"
  by (induction lat) (simp_all add: meshgrid_points_def)

lemma nth_meshgrid:
  "i < length lat \<Longrightarrow> j < length lon \<Longrightarrow>
   meshgrid_points lon lat ! (i * length lon + j) = (lon ! j, lat ! i)"
proof (induction lat arbitrary: i)
  case Nil
  then show ?case by simp
next
  case (Cons a lat)
  show ?case
  proof (cases i)
    case 0
    with Cons.prems show ?thesis by (simp add: meshgrid_points_def nth_append)
  next
    case (Suc k)
    with Cons.prems have "k < length lat" by simp
    from Cons.IH [OF this Cons.prems(2)] Suc show ?thesis
      by (simp add: meshgrid_points_def nth_append)
  qed
qed

lemma polygon_mask_at:
  assumes "i < length lat" and "j < length lon"
  shows "polygon_mask g lon lat i j = contains g (lon ! j, lat ! i)"
proof -
  have "i * length lon + j < length lat * length lon"
  proof -
    have "i * length lon + j < Suc i * length lon" using assms(2) by simp
    also have "\<dots> \<le> length lat * length lon"
      using assms(1) by (intro mult_le_mono1) simp
    finally show ?thesis .
  qed
  then show ?thesis
    using assms by (simp add: polygon_mask_def reshape_def length_meshgrid nth_meshgrid)
qed

lemma mean_lat_lon_cong:
  assumes "\<And>t i j. i < nlat \<Longrightarrow> j < nlon \<Longrightarrow> var t i j = var' t i j"
  shows "mean_lat_lon nt nlat nlon var = mean_lat_lon nt nlat nlon var'"
proof -
  have "concat (map (\<lambda>i. map (\<lambda>j. var t i j) [0..<nlon]) [0..<nlat]) =
        concat (map (\<lambda>i. map (\<lambda>j. var' t i j) [0..<nlon]) [0..<nlat])" for t
    using assms by (auto intro!: arg_cong [where f = concat] map_cong)
  then show ?thesis by (simp add: mean_lat_lon_def)
qed

lemma nanmean_all_missing: "\<forall>x\<in>set xs. x = None \<Longrightarrow> nanmean xs = None"
  by (induction xs) (simp_all add: nanmean_def)

lemma mean_lat_lon_all_missing:
  "mean_lat_lon nt nlat nlon (\<lambda>t i j. None) = replicate nt None"
  by (simp add: mean_lat_lon_def nanmean_all_missing map_replicate_const)

lemma mean_polygon_unfold:
  assumes "coords ds ''lat'' = Some lat" and "coords ds ''lon'' = Some lon"
    and "data_vars ds variable = Some var"
  shows "mean_polygon unary_union ds variable (Some geoms) =
         Inr (mean_lat_lon (ntime ds) (length lat) (length lon)
                (where_mask var (polygon_mask (union_all unary_union geoms) lon lat)))"
  using assms by (simp add: mean_polygon_def get_geometry_def get_coord_def get_var_def then_do_def)

lemma mean_polygon_all_masked:
  assumes "coords ds ''lat'' = Some lat" and "coords ds ''lon'' = Some lon"
    and "data_vars ds variable = Some var"
    and "\<And>i j. i < length lat \<Longrightarrow> j < length lon \<Longrightarrow>
           \<not> contains (union_all unary_union geoms) (lon ! j, lat ! i)"
  shows "mean_polygon unary_union ds variable (Some geoms) = Inr (replicate (ntime ds) None)"
proof -
  have "mean_lat_lon (ntime ds) (length lat) (length lon)
          (where_mask var (polygon_mask (union_all unary_union geoms) lon lat)) =
        mean_lat_lon (ntime ds) (length lat) (length lon) (\<lambda>t i j. None)"
    by (rule mean_lat_lon_cong) (simp add: where_mask_def polygon_mask_at assms(4))
  then show ?thesis
    by (simp add: mean_polygon_unfold [OF assms(1-3)] mean_lat_lon_all_missing)
qed

lemma union_all_no_geometry:
  "\<forall>g\<in>set geoms. g = None \<Longrightarrow> union_all unary_union geoms = empty_geometry"
proof -
  assume "\<forall>g\<in>set geoms. g = None"
  then have "List.map_filter id geoms = []"
    by (induction geoms) simp_all
  then show ?thesis by (simp add: union_all_def)
qed

lemma sample_slices:
  "concat (map (\<lambda>i. map (\<lambda>j. sample_var 0 i j) [0..<3]) [0..<3]) =
     [Some 0, Some 1, Some 2, Some 10, Some 11, Some 12, Some 20, Some 21, Some 22]"
  "concat (map (\<lambda>i. map (\<lambda>j. sample_var (Suc 0) i j) [0..<3]) [0..<3]) =
     [None, Some 101, Some 102, Some 110, Some 111, Some 112, Some 120, Some 121, Some 122]"
  by (simp_all add: sample_var_def upt_rec)

lemma sample_spatial_mean: "spatial_mean sample_ds ''T2M'' = Inr [Some 11, Some (899 / 8)]"
proof -
  have u: "[0..<2] = [0, Suc 0]" by (simp add: upt_rec)
  have "mean_lat_lon 2 3 3 sample_var = [Some 11, Some (899 / 8)]"
    by (simp add: mean_lat_lon_def u sample_slices nanmean_def)
  then show ?thesis
    by (simp add: spatial_mean_def sample_ds_def get_coord_def get_var_def then_do_def
          numeral_3_eq_3)
qed

subsection \<open>Claims\<close>

text \<open>
  C5. For a dataset with both axes and the variable, and a shape collection whose union
  contains no grid-cell centre, \<open>mean_polygon\<close> returns a result (it does not raise) that is
  missing at every time step (it is not zero).
\<close>

theorem mean_polygon_no_cell_inside:
  assumes "coords ds ''lat'' = Some lat" and "coords ds ''lon'' = Some lon"
    and "data_vars ds variable = Some var"
    and "\<forall>i<length lat. \<forall>j<length lon.
           \<not> contains (union_all unary_union geoms) (lon ! j, lat ! i)"
  shows "mean_polygon unary_union ds variable (Some geoms) = Inr (replicate (ntime ds) None)"
  using assms by (intro mean_polygon_all_masked) auto

theorem mean_polygon_no_cell_inside_witness:
  "coords sample_ds ''lat'' = Some [10, 20, 30] \<and> coords sample_ds ''lon'' = Some [10, 20, 30] \<and>
   data_vars sample_ds ''T2M'' = Some sample_var \<and>
   list_all (\<lambda>p. \<not> contains (union_all pointwise_union [Some (box 0 0 5 5)]) p)
     (meshgrid_points [10, 20, 30] [10, 20, 30]) \<and>
   mean_polygon pointwise_union sample_ds ''T2M'' (Some [Some (box 0 0 5 5)]) = Inr [None, None]"
proof -
  have c: "coords sample_ds ''lat'' = Some [10, 20, 30]" "coords sample_ds ''lon'' = Some [10, 20, 30]"
    "data_vars sample_ds ''T2M'' = Some sample_var"
    by (simp_all add: sample_ds_def)
  have h: "\<forall>i<length [10, 20, 30 :: real]. \<forall>j<length [10, 20, 30 :: real].
      \<not> contains (union_all pointwise_union [Some (box 0 0 5 5)]) ([10, 20, 30] ! j, [10, 20, 30] ! i)"
    by (simp add: contains_def union_all_def pointwise_union_def box_def
          less_Suc_eq all_conj_distrib)
  have n: "ntime sample_ds = 2" by (simp add: sample_ds_def)
  have g: "list_all (\<lambda>p. \<not> contains (union_all pointwise_union [Some (box 0 0 5 5)]) p)
     (meshgrid_points [10, 20, 30] [10, 20, 30])"
    by (simp add: meshgrid_points_def contains_def union_all_def pointwise_union_def box_def)
  from mean_polygon_no_cell_inside [OF c h] c g n show ?thesis
    by (simp add: numeral_2_eq_2)
qed

text \<open>
  C7, as stated, fails. With a shape collection whose geometry column is empty,
  \<open>mean_polygon\<close> does not raise: the union of no shape is the empty geometry, no grid
  point lies inside it, and the result is missing at both time steps of the sample dataset.
\<close>

theorem mean_polygon_empty_shapes_counterexample:
  "mean_polygon pointwise_union sample_ds ''T2M'' (Some []) = Inr [None, None]"
proof -
  have "mean_polygon pointwise_union sample_ds ''T2M'' (Some []) = Inr (replicate (ntime sample_ds) None)"
    by (rule mean_polygon_all_masked [where lat = "[10, 20, 30]" and lon = "[10, 20, 30]"])
       (simp_all add: sample_ds_def union_all_def contains_def empty_geometry_def)
  then show ?thesis by (simp add: sample_ds_def numeral_2_eq_2)
qed

text \<open>
  C7, amended. \<open>mean_polygon\<close> fails, with \<open>AttributeError\<close>, when the shape collection
  has no geometry column. When the shape collection has a geometry column that is empty or
  holds only missing geometries, \<open>mean_polygon\<close> does not fail: on a dataset with both axes
  and the variable it returns a result that is missing at every time step.
\<close>

theorem mean_polygon_no_geometry:
  assumes "coords ds ''lat'' = Some lat" and "coords ds ''lon'' = Some lon"
    and "data_vars ds variable = Some var"
    and "\<forall>g\<in>set geoms. g = None"
  shows "mean_polygon unary_union ds variable None = Inl AttributeError \<and>
         mean_polygon unary_union ds variable (Some geoms) = Inr (replicate (ntime ds) None)"
proof
  show "mean_polygon unary_union ds variable None = Inl AttributeError"
    by (simp add: mean_polygon_def get_geometry_def then_do_def)
  show "mean_polygon unary_union ds variable (Some geoms) = Inr (replicate (ntime ds) None)"
    using assms(1-3)
    by (rule mean_polygon_all_masked)
       (simp add: union_all_no_geometry [OF assms(4)] contains_def empty_geometry_def)
qed

theorem mean_polygon_no_geometry_witness:
  "coords sample_ds ''lat'' = Some [10, 20, 30] \<and> coords sample_ds ''lon'' = Some [10, 20, 30] \<and>
   data_vars sample_ds ''T2M'' = Some sample_var \<and>
   list_all (\<lambda>g. g = None) [None, None :: geometry option] \<and>
   mean_polygon pointwise_union sample_ds ''T2M'' None = Inl AttributeError \<and>
   mean_polygon pointwise_union sample_ds ''T2M'' (Some [None, None]) = Inr [None, None]"
proof -
  have c: "coords sample_ds ''lat'' = Some [10, 20, 30]" "coords sample_ds ''lon'' = Some [10, 20, 30]"
    "data_vars sample_ds ''T2M'' = Some sample_var"
    by (simp_all add: sample_ds_def)
  have h: "\<forall>g\<in>set [None, None :: geometry option]. g = None" by simp
  have n: "ntime sample_ds = 2" by (simp add: sample_ds_def)
  from mean_polygon_no_geometry [OF c h] c n show ?thesis
    by (simp add: numeral_2_eq_2)
qed

text \<open>
  C8. When the union of the shapes contains every grid-cell centre, \<open>mean_polygon\<close> of a
  variable equals the unmasked mean of that variable over lat and lon at every time step
  (and raises the same \<open>KeyError\<close> when the variable does not exist).
\<close>

theorem mean_polygon_covering:
  assumes "coords ds ''lat'' = Some lat" and "coords ds ''lon'' = Some lon"
    and "\<forall>i<length lat. \<forall>j<length lon.
           contains (union_all unary_union geoms) (lon ! j, lat ! i)"
  shows "mean_polygon unary_union ds variable (Some geoms) = spatial_mean ds variable"
proof (cases "data_vars ds variable")
  case None
  with assms(1,2) show ?thesis
    by (simp add: mean_polygon_def spatial_mean_def get_geometry_def get_coord_def get_var_def then_do_def)
next
  case (Some var)
  have "mean_lat_lon (ntime ds) (length lat) (length lon)
          (where_mask var (polygon_mask (union_all unary_union geoms) lon lat)) =
        mean_lat_lon (ntime ds) (length lat) (length lon) var"
    by (rule mean_lat_lon_cong) (simp add: where_mask_def polygon_mask_at assms(3))
  with assms(1,2) Some show ?thesis
    by (simp add: mean_polygon_unfold [OF assms(1,2) Some] spatial_mean_def get_coord_def
          get_var_def then_do_def)
qed

theorem mean_polygon_covering_witness:
  "coords sample_ds ''lat'' = Some [10, 20, 30] \<and> coords sample_ds ''lon'' = Some [10, 20, 30] \<and>
   list_all (\<lambda>p. contains (union_all pointwise_union [Some (box 0 0 40 40)]) p)
     (meshgrid_points [10, 20, 30] [10, 20, 30]) \<and>
   mean_polygon pointwise_union sample_ds ''T2M'' (Some [Some (box 0 0 40 40)]) = Inr [Some 11, Some (899 / 8)]"
proof -
  have c: "coords sample_ds ''lat'' = Some [10, 20, 30]" "coords sample_ds ''lon'' = Some [10, 20, 30]"
    by (simp_all add: sample_ds_def)
  have h: "\<forall>i<length [10, 20, 30 :: real]. \<forall>j<length [10, 20, 30 :: real].
      contains (union_all pointwise_union [Some (box 0 0 40 40)]) ([10, 20, 30] ! j, [10, 20, 30] ! i)"
    by (simp add: contains_def union_all_def pointwise_union_def box_def
          less_Suc_eq all_conj_distrib)
  have g: "list_all (\<lambda>p. contains (union_all pointwise_union [Some (box 0 0 40 40)]) p)
     (meshgrid_points [10, 20, 30] [10, 20, 30])"
    by (simp add: meshgrid_points_def contains_def union_all_def pointwise_union_def box_def)
  from mean_polygon_covering [OF c h] c g show ?thesis
    by (simp add: sample_spatial_mean)
qed

text \<open>
  C10. A grid point that lies on the boundary of the union of the shapes is treated as
  outside: its mask entry is false, its cell is missing in the masked variable at every time
  step, and the result of \<open>mean_polygon\<close> does not depend on the value of that cell.
\<close>

theorem mean_polygon_boundary_excluded:
  assumes "coords ds ''lat'' = Some lat" and "coords ds ''lon'' = Some lon"
    and "data_vars ds variable = Some var"
    and "i < length lat" and "j < length lon"
    and "union_all unary_union geoms (lon ! j, lat ! i) = Boundary"
    and "\<forall>t i' j'. (i', j') \<noteq> (i, j) \<longrightarrow> var' t i' j' = var t i' j'"
  shows "\<not> polygon_mask (union_all unary_union geoms) lon lat i j \<and>
         (\<forall>t. where_mask var (polygon_mask (union_all unary_union geoms) lon lat) t i j = None) \<and>
         mean_polygon unary_union (ds\<lparr>data_vars := (data_vars ds)(variable \<mapsto> var')\<rparr>) variable (Some geoms) =
         mean_polygon unary_union ds variable (Some geoms)"
proof -
  let ?msk = "polygon_mask (union_all unary_union geoms) lon lat"
  have m: "\<not> ?msk i j"
    using assms(4-6) by (simp add: polygon_mask_at contains_def)
  have "mean_lat_lon (ntime ds) (length lat) (length lon) (where_mask var' ?msk) =
        mean_lat_lon (ntime ds) (length lat) (length lon) (where_mask var ?msk)"
  proof (rule mean_lat_lon_cong)
    fix t i' j'
    show "where_mask var' ?msk t i' j' = where_mask var ?msk t i' j'"
      using m assms(7) by (cases "(i', j') = (i, j)") (auto simp: where_mask_def)
  qed
  moreover have "mean_polygon unary_union (ds\<lparr>data_vars := (data_vars ds)(variable \<mapsto> var')\<rparr>)
        variable (Some geoms) =
      Inr (mean_lat_lon (ntime ds) (length lat) (length lon) (where_mask var' ?msk))"
    using mean_polygon_unfold [of "ds\<lparr>data_vars := (data_vars ds)(variable \<mapsto> var')\<rparr>" lat lon variable var']
      assms(1,2) by simp
  ultimately show ?thesis
    using m by (simp add: mean_polygon_unfold [OF assms(1-3)] where_mask_def)
qed

theorem mean_polygon_boundary_excluded_witness:
  "coords sample_ds ''lat'' = Some [10, 20, 30] \<and> coords sample_ds ''lon'' = Some [10, 20, 30] \<and>
   data_vars sample_ds ''T2M'' = Some sample_var \<and>
   1 < length [10, 20, 30 :: real] \<and> 0 < length [10, 20, 30 :: real] \<and>
   union_all pointwise_union [Some (box 10 0 40 40)] ([10, 20, 30] ! 0, [10, 20, 30] ! 1) = Boundary \<and>
   sample_var' = (\<lambda>t i j. if i = 1 \<and> j = 0 then Some 999 else sample_var t i j) \<and>
   \<not> polygon_mask (union_all pointwise_union [Some (box 10 0 40 40)]) [10, 20, 30] [10, 20, 30] 1 0 \<and>
   mean_polygon pointwise_union (sample_ds\<lparr>data_vars := (data_vars sample_ds)(''T2M'' \<mapsto> sample_var')\<rparr>)
     ''T2M'' (Some [Some (box 10 0 40 40)]) =
   mean_polygon pointwise_union sample_ds ''T2M'' (Some [Some (box 10 0 40 40)])"
proof -
  have c: "coords sample_ds ''lat'' = Some [10, 20, 30]" "coords sample_ds ''lon'' = Some [10, 20, 30]"
    "data_vars sample_ds ''T2M'' = Some sample_var"
    by (simp_all add: sample_ds_def)
  have l: "1 < length [10, 20, 30 :: real]" "0 < length [10, 20, 30 :: real]" by simp_all
  have b: "union_all pointwise_union [Some (box 10 0 40 40)] ([10, 20, 30] ! 0, [10, 20, 30] ! 1) = Boundary"
    by (simp add: union_all_def pointwise_union_def box_def)
  have v: "\<forall>t i' j'. (i', j') \<noteq> (1, 0) \<longrightarrow> sample_var' t i' j' = sample_var t i' j'"
    by (simp add: sample_var'_def)
  have e: "sample_var' = (\<lambda>t i j. if i = 1 \<and> j = 0 then Some 999 else sample_var t i j)"
    by (simp add: sample_var'_def)
  from mean_polygon_boundary_excluded [OF c l b v] c l b e show ?thesis
    by blast
qed

end
